theory Spec2Isabelle
  imports Complex_Main
begin

section \<open>JavaScript values\<close>

text \<open>
  The handlers of \<^verbatim>\<open>routes/routesAch.mjs\<close> read the four fields of the parsed JSON body
  and test them with \<^verbatim>\<open>!x\<close>, so the model needs the values of JavaScript and the
  language's truthiness. A number is a finite value, negative zero, an infinity or NaN.
\<close>

datatype jsnum = Val rat | NegZero | PosInfinity | NegInfinity | NaN

datatype jsval =
    JUndefined
  | JNull
  | JBool bool
  | JNum jsnum
  | JStr string
  | JArr "jsval list"
  | JObj "(string \<times> jsval) list"

text \<open>ToBoolean of the language: the falsy values are \<^verbatim>\<open>undefined\<close>, \<^verbatim>\<open>null\<close>,
  \<^verbatim>\<open>false\<close>, \<^verbatim>\<open>0\<close>, \<^verbatim>\<open>-0\<close>, \<^verbatim>\<open>NaN\<close> and the empty string.\<close>

fun to_boolean :: "jsval \<Rightarrow> bool" where
  "to_boolean JUndefined = False"
| "to_boolean JNull = False"
| "to_boolean (JBool b) = b"
| "to_boolean (JNum (Val q)) = (q \<noteq> 0)"
| "to_boolean (JNum NegZero) = False"
| "to_boolean (JNum NaN) = False"
| "to_boolean (JNum PosInfinity) = True"
| "to_boolean (JNum NegInfinity) = True"
| "to_boolean (JStr s) = (s \<noteq> [])"
| "to_boolean (JArr xs) = True"
| "to_boolean (JObj kvs) = True"

text \<open>\<^verbatim>\<open>req.body\<close> after \<^verbatim>\<open>express.json()\<close>: the properties of the parsed object
  (the handlers are reached with an object or an array as body). Destructuring a property
  the object does not have gives \<^verbatim>\<open>undefined\<close>.\<close>

type_synonym body = "string \<rightharpoonup> jsval"

definition property :: "body \<Rightarrow> string \<Rightarrow> jsval" where
  "property b k = (case b k of None \<Rightarrow> JUndefined | Some v \<Rightarrow> v)"

section \<open>The table \<^verbatim>\<open>ach_data\<close>\<close>

text \<open>
  Modelled from the spec: the schema of \<^verbatim>\<open>ach_data\<close> is not in the repository. The
  columns are the ones the SQL of the handlers names (\<^verbatim>\<open>id\<close>, \<^verbatim>\<open>room_name\<close>,
  \<^verbatim>\<open>room_volume\<close>, \<^verbatim>\<open>airflow_rate\<close>, \<^verbatim>\<open>ach\<close>), with the types of the data model
  (section 3 of the spec, and the schema \<^verbatim>\<open>ACH\<close> of the API description in
  \<^verbatim>\<open>routesAch.mjs\<close>): \<^verbatim>\<open>id\<close> is an integer generated by the storage on insert, here by
  a sequence, the room name is a string, and the volume, the airflow rate and the air
  changes are numbers.
\<close>

record row =
  row_id :: int
  room_name :: string
  room_volume :: rat
  airflow_rate :: rat
  ach :: rat

record table =
  ach_data :: "row list"
  id_seq :: int

text \<open>The five statements the handlers send, with their positional parameters: the
  values of the body as the handler passes them on, and the path parameter as the
  \<^verbatim>\<open>id\<close> column reads it.\<close>

datatype query =
    SelectAll
  | SelectById int
  | Insert jsval jsval jsval jsval
  | Update jsval jsval jsval jsval int
  | DeleteById int

datatype query_result_error_code = noData | notEmpty | multiple

datatype db_error = QueryResultError query_result_error_code | DriverError string

text \<open>
  Modelled from the spec: what the typed columns take. A string column takes a string and
  a number column takes a finite number; the storage refuses a statement with any other
  value for them, which is a failure of the persistence layer.
\<close>

fun as_text :: "jsval \<Rightarrow> string option" where
  "as_text (JStr s) = Some s"
| "as_text v = None"

fun as_number :: "jsval \<Rightarrow> rat option" where
  "as_number (JNum (Val q)) = Some q"
| "as_number v = None"

definition column_values ::
  "jsval \<Rightarrow> jsval \<Rightarrow> jsval \<Rightarrow> jsval \<Rightarrow> (string \<times> rat \<times> rat \<times> rat) option" where
  "column_values v1 v2 v3 v4 =
     (case (as_text v1, as_number v2, as_number v3, as_number v4) of
        (Some name, Some volume, Some rate, Some changes) \<Rightarrow> Some (name, volume, rate, changes)
      | _ \<Rightarrow> None)"

text \<open>A statement is refused, or gives the rows it returns (\<^verbatim>\<open>SELECT\<close>,
  \<^verbatim>\<open>RETURNING *\<close>), the number of rows it affected and the table after it.\<close>

fun execute :: "query \<Rightarrow> table \<Rightarrow> db_error + row list \<times> nat \<times> table" where
  "execute SelectAll t = Inr (ach_data t, length (ach_data t), t)"
| "execute (SelectById i) t =
     (let rs = filter (\<lambda>r. row_id r = i) (ach_data t) in Inr (rs, length rs, t))"
| "execute (Insert v1 v2 v3 v4) t =
     (case column_values v1 v2 v3 v4 of
        None \<Rightarrow> Inl (DriverError ''invalid input value'')
      | Some (name, volume, rate, changes) \<Rightarrow>
          (let r = \<lparr>row_id = id_seq t, room_name = name, room_volume = volume,
                     airflow_rate = rate, ach = changes\<rparr>
           in Inr ([r], 1, \<lparr>ach_data = ach_data t @ [r], id_seq = id_seq t + 1\<rparr>)))"
| "execute (Update v1 v2 v3 v4 i) t =
     (case column_values v1 v2 v3 v4 of
        None \<Rightarrow> Inl (DriverError ''invalid input value'')
      | Some (name, volume, rate, changes) \<Rightarrow>
          (let rs = map (\<lambda>r. if row_id r = i
                               then r\<lparr>room_name := name, room_volume := volume,
                                      airflow_rate := rate, ach := changes\<rparr>
                               else r) (ach_data t);
               hit = filter (\<lambda>r. row_id r = i) rs
           in Inr (hit, length hit, t\<lparr>ach_data := rs\<rparr>)))"
| "execute (DeleteById i) t =
     Inr ([], length (filter (\<lambda>r. row_id r = i) (ach_data t)),
          t\<lparr>ach_data := filter (\<lambda>r. row_id r \<noteq> i) (ach_data t)\<rparr>)"

section \<open>The persistence adapter\<close>

text \<open>
  \<^verbatim>\<open>db\<close> is a pg-promise database object. Its methods reject with the error of the
  driver, or with a \<^verbatim>\<open>QueryResultError\<close> when the number of rows is not the one the
  method expects.
\<close>

text \<open>The state of the server: the table, the statements sent to the adapter so far, and
  what \<^verbatim>\<open>console.error\<close> has written.\<close>

record server =
  database :: table
  queries :: "query list"
  console :: "(string \<times> db_error) list"

text \<open>
  Sending a statement. \<open>fault\<close> is a failure the persistence layer raises on this call
  whatever the statement is (connectivity, an identifier the column cannot read), if any;
  the statement then has no effect. Otherwise the statement runs on the table, which may
  refuse it.
\<close>

definition db_query ::
  "db_error option \<Rightarrow> query \<Rightarrow> server \<Rightarrow> (db_error + row list \<times> nat) \<times> server" where
  "db_query fault q s =
     (let s' = s\<lparr>queries := queries s @ [q]\<rparr> in
      case fault of
        Some e \<Rightarrow> (Inl e, s')
      | None \<Rightarrow>
          (case execute q (database s) of
             Inl e \<Rightarrow> (Inl e, s')
           | Inr (rs, n, t) \<Rightarrow> (Inr (rs, n), s'\<lparr>database := t\<rparr>)))"

text \<open>\<^verbatim>\<open>db.any\<close>: any number of rows.\<close>

definition db_any ::
  "db_error option \<Rightarrow> query \<Rightarrow> server \<Rightarrow> (db_error + row list) \<times> server" where
  "db_any fault q s =
     (case db_query fault q s of
        (Inl e, s') \<Rightarrow> (Inl e, s')
      | (Inr (rs, n), s') \<Rightarrow> (Inr rs, s'))"

text \<open>\<^verbatim>\<open>db.oneOrNone\<close>: the row, \<^verbatim>\<open>null\<close> when there is none, rejected when there are
  several.\<close>

definition db_oneOrNone ::
  "db_error option \<Rightarrow> query \<Rightarrow> server \<Rightarrow> (db_error + row option) \<times> server" where
  "db_oneOrNone fault q s =
     (case db_query fault q s of
        (Inl e, s') \<Rightarrow> (Inl e, s')
      | (Inr (rs, n), s') \<Rightarrow>
          (case rs of
             [] \<Rightarrow> (Inr None, s')
           | [r] \<Rightarrow> (Inr (Some r), s')
           | _ \<Rightarrow> (Inl (QueryResultError multiple), s')))"

text \<open>\<^verbatim>\<open>db.one\<close>: exactly one row, rejected otherwise.\<close>

definition db_one ::
  "db_error option \<Rightarrow> query \<Rightarrow> server \<Rightarrow> (db_error + row) \<times> server" where
  "db_one fault q s =
     (case db_query fault q s of
        (Inl e, s') \<Rightarrow> (Inl e, s')
      | (Inr (rs, n), s') \<Rightarrow>
          (case rs of
             [] \<Rightarrow> (Inl (QueryResultError noData), s')
           | [r] \<Rightarrow> (Inr r, s')
           | _ \<Rightarrow> (Inl (QueryResultError multiple), s')))"

text \<open>\<^verbatim>\<open>db.result\<close>: the result object, of which the handler reads \<^verbatim>\<open>rowCount\<close>.\<close>

definition db_result ::
  "db_error option \<Rightarrow> query \<Rightarrow> server \<Rightarrow> (db_error + nat) \<times> server" where
  "db_result fault q s =
     (case db_query fault q s of
        (Inl e, s') \<Rightarrow> (Inl e, s')
      | (Inr (rs, n), s') \<Rightarrow> (Inr n, s'))"

section \<open>Responses\<close>

record response =
  status :: nat
  payload :: "jsval option"

text \<open>
  \<^verbatim>\<open>res.json\<close> sends \<^verbatim>\<open>JSON.stringify\<close> of its argument, and the payload of a response
  is the value the client reads from that text: a number that is not finite has become
  \<^verbatim>\<open>null\<close>, negative zero has become zero, \<^verbatim>\<open>undefined\<close> in an array has become
  \<^verbatim>\<open>null\<close>, and a property whose value is \<^verbatim>\<open>undefined\<close> is gone.
\<close>

fun stringify :: "jsval \<Rightarrow> jsval"
  and stringify_elements :: "jsval list \<Rightarrow> jsval list"
  and stringify_properties :: "(string \<times> jsval) list \<Rightarrow> (string \<times> jsval) list" where
  "stringify JUndefined = JUndefined"
| "stringify JNull = JNull"
| "stringify (JBool b) = JBool b"
| "stringify (JNum (Val q)) = JNum (Val q)"
| "stringify (JNum NegZero) = JNum (Val 0)"
| "stringify (JNum PosInfinity) = JNull"
| "stringify (JNum NegInfinity) = JNull"
| "stringify (JNum NaN) = JNull"
| "stringify (JStr s) = JStr s"
| "stringify (JArr xs) = JArr (stringify_elements xs)"
| "stringify (JObj kvs) = JObj (stringify_properties kvs)"
| "stringify_elements [] = []"
| "stringify_elements (x # xs) =
     (if x = JUndefined then JNull else stringify x) # stringify_elements xs"
| "stringify_properties [] = []"
| "stringify_properties ((k, v) # kvs) =
     (if v = JUndefined then stringify_properties kvs
      else (k, stringify v) # stringify_properties kvs)"

text \<open>\<^verbatim>\<open>res.status(code).json(v)\<close>; \<^verbatim>\<open>res.json(v)\<close> alone keeps the default 200.\<close>

definition json :: "nat \<Rightarrow> jsval \<Rightarrow> response" where
  "json code v = \<lparr>status = code, payload = Some (stringify v)\<rparr>"

text \<open>\<^verbatim>\<open>res.status(code).send()\<close>: no body.\<close>

definition send :: "nat \<Rightarrow> response" where
  "send code = \<lparr>status = code, payload = None\<rparr>"

text \<open>The object literal \<^verbatim>\<open>{ message: m }\<close>.\<close>

definition message :: "string \<Rightarrow> jsval" where
  "message m = JObj [(''message'', JStr m)]"

text \<open>A row as the driver hands it to the handler: an object keyed by column name.\<close>

definition row_object :: "row \<Rightarrow> jsval" where
  "row_object r =
     JObj [(''id'', JNum (Val (of_int (row_id r)))),
           (''room_name'', JStr (room_name r)),
           (''room_volume'', JNum (Val (room_volume r))),
           (''airflow_rate'', JNum (Val (airflow_rate r))),
           (''ach'', JNum (Val (ach r)))]"

text \<open>\<^verbatim>\<open>console.error(label, error)\<close>.\<close>

definition console_error :: "string \<Rightarrow> db_error \<Rightarrow> server \<Rightarrow> server" where
  "console_error label e s = s\<lparr>console := console s @ [(label, e)]\<rparr>"

section \<open>The five route handlers\<close>

text \<open>\<^verbatim>\<open>router.get("/")\<close>\<close>

definition router_get_root :: "db_error option \<Rightarrow> server \<Rightarrow> response \<times> server" where
  "router_get_root fault s =
     (case db_any fault SelectAll s of
        (Inr data, s') \<Rightarrow> (json 200 (JArr (map row_object data)), s')
      | (Inl error, s') \<Rightarrow>
          (json 500 (message ''Error fetching data''),
           console_error ''Error fetching data:'' error s'))"

text \<open>\<^verbatim>\<open>router.get("/:id")\<close>\<close>

definition router_get_id :: "db_error option \<Rightarrow> server \<Rightarrow> int \<Rightarrow> response \<times> server" where
  "router_get_id fault s i =
     (case db_oneOrNone fault (SelectById i) s of
        (Inr data, s') \<Rightarrow>
          (case data of
             Some r \<Rightarrow> (json 200 (row_object r), s')
           | None \<Rightarrow> (json 404 (message ''Record not found''), s'))
      | (Inl error, s') \<Rightarrow>
          (json 500 (message ''Error fetching data''),
           console_error ''Error fetching data:'' error s'))"

text \<open>The presence check of \<^verbatim>\<open>router.post("/")\<close> and \<^verbatim>\<open>router.put("/:id")\<close>:
  \<^verbatim>\<open>!roomName || !roomVolume || !airflowRate || !ach\<close>.\<close>

definition missing_field :: "body \<Rightarrow> bool" where
  "missing_field b =
     (\<not> to_boolean (property b ''roomName'') \<or> \<not> to_boolean (property b ''roomVolume'') \<or>
      \<not> to_boolean (property b ''airflowRate'') \<or> \<not> to_boolean (property b ''ach''))"

text \<open>\<^verbatim>\<open>router.post("/")\<close>\<close>

definition router_post_root :: "db_error option \<Rightarrow> server \<Rightarrow> body \<Rightarrow> response \<times> server" where
  "router_post_root fault s b =
     (if missing_field b then (json 400 (message ''All fields are required''), s)
      else
        (case db_one fault
                (Insert (property b ''roomName'') (property b ''roomVolume'')
                        (property b ''airflowRate'') (property b ''ach'')) s of
           (Inr newEntry, s') \<Rightarrow> (json 201 (row_object newEntry), s')
         | (Inl error, s') \<Rightarrow>
             (json 500 (message ''Error submitting data''),
              console_error ''Error submitting data:'' error s')))"

text \<open>\<^verbatim>\<open>router.put("/:id")\<close>\<close>

definition router_put_id ::
  "db_error option \<Rightarrow> server \<Rightarrow> int \<Rightarrow> body \<Rightarrow> response \<times> server" where
  "router_put_id fault s i b =
     (if missing_field b then (json 400 (message ''All fields are required''), s)
      else
        (case db_one fault
                (Update (property b ''roomName'') (property b ''roomVolume'')
                        (property b ''airflowRate'') (property b ''ach'') i) s of
           (Inr updatedEntry, s') \<Rightarrow> (json 200 (row_object updatedEntry), s')
         | (Inl error, s') \<Rightarrow>
             (json 500 (message ''Error updating data''),
              console_error ''Error updating data:'' error s')))"

text \<open>\<^verbatim>\<open>router.delete("/:id")\<close>\<close>

definition router_delete_id :: "db_error option \<Rightarrow> server \<Rightarrow> int \<Rightarrow> response \<times> server" where
  "router_delete_id fault s i =
     (case db_result fault (DeleteById i) s of
        (Inr rowCount, s') \<Rightarrow>
          (if rowCount > 0 then (send 204, s')
           else (json 404 (message ''Record not found''), s'))
      | (Inl error, s') \<Rightarrow>
          (json 500 (message ''Error deleting data''),
           console_error ''Error deleting data:'' error s'))"


section \<open>The router\<close>

text \<open>The requests the router dispatches, by method and path, with the path parameter as
  the \<^verbatim>\<open>id\<close> column reads it and the parsed body.\<close>

datatype request =
    GET_root
  | GET_id int
  | POST_root body
  | PUT_id int body
  | DELETE_id int

fun handle :: "db_error option \<Rightarrow> server \<Rightarrow> request \<Rightarrow> response \<times> server" where
  "handle fault s GET_root = router_get_root fault s"
| "handle fault s (GET_id i) = router_get_id fault s i"
| "handle fault s (POST_root b) = router_post_root fault s b"
| "handle fault s (PUT_id i b) = router_put_id fault s i b"
| "handle fault s (DELETE_id i) = router_delete_id fault s i"

section \<open>Notions the properties are stated with\<close>

text \<open>The names of the columns, in the order of \<open>row_object\<close>; \<^verbatim>\<open>Object.keys\<close> of a value.\<close>

definition column_names :: "string list" where
  "column_names = [''id'', ''room_name'', ''room_volume'', ''airflow_rate'', ''ach'']"

fun object_keys :: "jsval \<Rightarrow> string list" where
  "object_keys (JObj kvs) = map fst kvs"
| "object_keys v = []"

text \<open>Identifiers generated by the storage: no two rows share one, and the sequence is
  ahead of all of them.\<close>

definition consistent :: "table \<Rightarrow> bool" where
  "consistent t =
     (distinct (map row_id (ach_data t)) \<and> (\<forall>r \<in> set (ach_data t). row_id r < id_seq t))"

text \<open>The identifier a response carries in its record, read as a client reads it.\<close>

definition returned_id :: "response \<Rightarrow> int option" where
  "returned_id res =
     (case payload res of
        Some (JObj kvs) \<Rightarrow>
          (case map_of kvs ''id'' of
             Some (JNum (Val q)) \<Rightarrow> Some \<lfloor>q\<rfloor>
           | _ \<Rightarrow> None)
      | _ \<Rightarrow> None)"

text \<open>
  The lifecycle of the records in the spec's words, followed from the responses alone:
  a record is created by a create that answers 201 (which assigns its id), its four
  fields are overwritten by an update that answers 200, it is destroyed by a delete that
  answers 204, and nothing else changes the records. The fields of a record are the
  fields of the request, as values of the types of the data model.
\<close>

fun spec_lifecycle :: "row list \<Rightarrow> request \<Rightarrow> response \<Rightarrow> row list" where
  "spec_lifecycle live (POST_root b) res =
     (if status res = 201
      then (case (returned_id res,
                  column_values (property b ''roomName'') (property b ''roomVolume'')
                                (property b ''airflowRate'') (property b ''ach'')) of
              (Some n, Some (name, volume, rate, changes)) \<Rightarrow>
                 live @ [\<lparr>row_id = n, room_name = name, room_volume = volume,
                          airflow_rate = rate, ach = changes\<rparr>]
            | _ \<Rightarrow> live)
      else live)"
| "spec_lifecycle live (PUT_id i b) res =
     (if status res = 200
      then (case column_values (property b ''roomName'') (property b ''roomVolume'')
                               (property b ''airflowRate'') (property b ''ach'') of
              Some (name, volume, rate, changes) \<Rightarrow>
                 map (\<lambda>r. if row_id r = i
                           then \<lparr>row_id = i, room_name = name, room_volume = volume,
                                 airflow_rate = rate, ach = changes\<rparr>
                           else r) live
            | None \<Rightarrow> live)
      else live)"
| "spec_lifecycle live (DELETE_id i) res =
     (if status res = 204 then filter (\<lambda>r. row_id r \<noteq> i) live else live)"
| "spec_lifecycle live GET_root res = live"
| "spec_lifecycle live (GET_id i) res = live"

text \<open>A sequence of requests, each with the failure the persistence layer raises on it (if
  any), run on the server while the lifecycle is followed beside it.\<close>

fun run ::
  "server \<Rightarrow> row list \<Rightarrow> (db_error option \<times> request) list \<Rightarrow> server \<times> row list" where
  "run s live [] = (s, live)"
| "run s live ((fault, req) # rest) =
     (case handle fault s req of
        (res, s') \<Rightarrow> run s' (spec_lifecycle live req res) rest)"

section \<open>Example data\<close>

text \<open>Bodies and server states on which the properties below are evaluated.\<close>

definition lab_a :: body where
  "lab_a = [''roomName'' \<mapsto> JStr ''Lab A'', ''roomVolume'' \<mapsto> JNum (Val 100),
            ''airflowRate'' \<mapsto> JNum (Val 2000), ''ach'' \<mapsto> JNum (Val 20)]"

definition lab_b :: body where
  "lab_b = [''roomName'' \<mapsto> JStr ''Lab B'', ''roomVolume'' \<mapsto> JNum (Val 150),
            ''airflowRate'' \<mapsto> JNum (Val 3000), ''ach'' \<mapsto> JNum (Val 20)]"

definition zero_ach :: body where
  "zero_ach = [''roomName'' \<mapsto> JStr ''Lab A'', ''roomVolume'' \<mapsto> JNum (Val 100),
               ''airflowRate'' \<mapsto> JNum (Val 2000), ''ach'' \<mapsto> JNum (Val 0)]"

definition empty_server :: server where
  "empty_server = \<lparr>database = \<lparr>ach_data = [], id_seq = 1\<rparr>, queries = [], console = []\<rparr>"

definition two_rooms :: server where
  "two_rooms =
     \<lparr>database =
        \<lparr>ach_data = [\<lparr>row_id = 1, room_name = ''Lab A'', room_volume = 100,
                       airflow_rate = 2000, ach = 20\<rparr>,
                      \<lparr>row_id = 2, room_name = ''Hall'', room_volume = 900,
                       airflow_rate = 4500, ach = 5\<rparr>],
         id_seq = 3\<rparr>,
      queries = [], console = []\<rparr>"

text \<open>A body whose four fields are truthy, with a string as room volume.\<close>

definition text_volume :: body where
  "text_volume = [''roomName'' \<mapsto> JStr ''Lab A'', ''roomVolume'' \<mapsto> JStr ''abc'',
                  ''airflowRate'' \<mapsto> JNum (Val 2000), ''ach'' \<mapsto> JNum (Val 20)]"

definition session :: "(db_error option \<times> request) list" where
  "session =
     [(None, POST_root lab_a),
      (None, POST_root zero_ach),
      (Some (DriverError ''connection refused''), POST_root lab_a),
      (None, POST_root lab_b),
      (None, GET_id 1),
      (None, DELETE_id 1),
      (None, DELETE_id 1),
      (None, PUT_id 7 lab_a)]"

section \<open>What each adapter call gives\<close>

lemma db_query_fault:
  "db_query (Some e) q s = (Inl e, s\<lparr>queries := queries s @ [q]\<rparr>)"
  by (simp add: db_query_def)

lemma db_query_refused:
  "execute q (database s) = Inl e \<Longrightarrow>
   db_query None q s = (Inl e, s\<lparr>queries := queries s @ [q]\<rparr>)"
  by (simp add: db_query_def)

lemma db_query_ok:
  "execute q (database s) = Inr (rs, n, t) \<Longrightarrow>
   db_query None q s = (Inr (rs, n), s\<lparr>queries := queries s @ [q], database := t\<rparr>)"
  by (simp add: db_query_def)

section \<open>What a response carries\<close>

lemma status_json: "status (json code v) = code"
  by (simp add: json_def)

lemma json_message:
  "json code (message m) = \<lparr>status = code, payload = Some (JObj [(''message'', JStr m)])\<rparr>"
  by (simp add: json_def message_def)

lemma stringify_row: "stringify (row_object r) = row_object r"
  by (simp add: row_object_def)

lemma stringify_rows: "stringify_elements (map row_object rs) = map row_object rs"
  by (induction rs) (simp_all add: stringify_row, simp add: row_object_def)

lemma json_row:
  "json code (row_object r) = \<lparr>status = code, payload = Some (row_object r)\<rparr>"
  by (simp add: json_def stringify_row)

lemma json_rows:
  "json code (JArr (map row_object rs)) =
     \<lparr>status = code, payload = Some (JArr (map row_object rs))\<rparr>"
  by (simp add: json_def stringify_rows)

lemma returned_id_row: "returned_id (json code (row_object r)) = Some (row_id r)"
  by (simp only: json_row) (simp add: returned_id_def row_object_def)

section \<open>Validation\<close>

lemma missing_fieldI:
  assumes "k \<in> {''roomName'', ''roomVolume'', ''airflowRate'', ''ach''}"
    and "\<not> to_boolean (property b k)"
  shows "missing_field b"
  using assms unfolding missing_field_def by auto

section \<open>Values the columns take\<close>

lemma column_values_typed:
  "column_values (JStr name) (JNum (Val volume)) (JNum (Val rate)) (JNum (Val changes)) =
     Some (name, volume, rate, changes)"
  by (simp add: column_values_def)

lemma as_text_Some: "as_text v = Some s \<Longrightarrow> v = JStr s"
  by (cases v) simp_all

lemma as_number_Some: "as_number v = Some q \<Longrightarrow> v = JNum (Val q)"
proof (cases v)
  case (JNum n)
  assume "as_number v = Some q"
  with JNum show ?thesis by (cases n) simp_all
qed simp_all

lemma column_values_Some:
  assumes "column_values v1 v2 v3 v4 = Some (name, volume, rate, changes)"
  shows "v1 = JStr name \<and> v2 = JNum (Val volume) \<and> v3 = JNum (Val rate) \<and>
         v4 = JNum (Val changes)"
proof -
  from assms have "as_text v1 = Some name" "as_number v2 = Some volume"
    "as_number v3 = Some rate" "as_number v4 = Some changes"
    by (simp_all add: column_values_def split: option.splits)
  then show ?thesis
    by (simp add: as_text_Some as_number_Some)
qed

section \<open>Rows selected by identifier\<close>

lemma filter_id_none:
  "\<forall>r \<in> set rs. row_id r \<noteq> i \<Longrightarrow> filter (\<lambda>r. row_id r = i) rs = []"
  by (induction rs) auto

lemma filter_keep_all:
  "\<forall>r \<in> set rs. row_id r \<noteq> i \<Longrightarrow> filter (\<lambda>r. row_id r \<noteq> i) rs = rs"
  by (induction rs) auto

lemma filter_id_single:
  "distinct (map row_id rs) \<Longrightarrow> r \<in> set rs \<Longrightarrow> filter (\<lambda>x. row_id x = row_id r) rs = [r]"
proof (induction rs)
  case Nil
  then show ?case by simp
next
  case (Cons a rs)
  show ?case
  proof (cases "a = r")
    case True
    with Cons.prems have "\<forall>x \<in> set rs. row_id x \<noteq> row_id r"
      by (auto simp: image_iff)
    with True show ?thesis by (simp add: filter_id_none)
  next
    case False
    with Cons.prems have "r \<in> set rs" "row_id a \<noteq> row_id r" by force+
    with Cons show ?thesis by simp
  qed
qed

lemma filter_id_cases:
  assumes "distinct (map row_id rs)"
  shows "(\<forall>r \<in> set rs. row_id r \<noteq> i) \<or>
         (\<exists>r \<in> set rs. row_id r = i \<and> filter (\<lambda>r. row_id r = i) rs = [r])"
proof (cases "\<exists>r \<in> set rs. row_id r = i")
  case True
  then obtain r where r: "r \<in> set rs" "row_id r = i" by blast
  with assms have "filter (\<lambda>x. row_id x = i) rs = [r]"
    using filter_id_single [of rs r] by simp
  with r have "\<exists>r \<in> set rs. row_id r = i \<and> filter (\<lambda>r. row_id r = i) rs = [r]"
    by (intro bexI [of _ r]) simp_all
  then show ?thesis ..
next
  case False
  then show ?thesis by simp
qed

section \<open>The rows an update touches\<close>

lemma update_row_eq:
  "row_id r = i \<Longrightarrow>
   r\<lparr>room_name := v1, room_volume := v2, airflow_rate := v3, ach := v4\<rparr> =
   \<lparr>row_id = i, room_name = v1, room_volume = v2, airflow_rate = v3, ach = v4\<rparr>"
  by (cases r) simp

lemma update_map_eq:
  "map (\<lambda>r. if row_id r = i
             then r\<lparr>room_name := v1, room_volume := v2, airflow_rate := v3, ach := v4\<rparr>
             else r) rs =
   map (\<lambda>r. if row_id r = i
             then \<lparr>row_id = i, room_name = v1, room_volume = v2, airflow_rate = v3, ach = v4\<rparr>
             else r) rs"
  by (induction rs) (simp_all add: update_row_eq)

lemma update_map_none:
  "\<forall>r \<in> set rs. row_id r \<noteq> i \<Longrightarrow> map (\<lambda>r. if row_id r = i then f r else r) rs = rs"
  by (induction rs) auto

lemma update_map_ids:
  "map row_id (map (\<lambda>r. if row_id r = i
         then \<lparr>row_id = i, room_name = v1, room_volume = v2, airflow_rate = v3, ach = v4\<rparr>
         else r) rs) = map row_id rs"
  by (induction rs) auto

lemma update_map_hit:
  "filter (\<lambda>r. row_id r = i)
     (map (\<lambda>r. if row_id r = i
         then \<lparr>row_id = i, room_name = v1, room_volume = v2, airflow_rate = v3, ach = v4\<rparr>
         else r) rs) =
   map (\<lambda>r. \<lparr>row_id = i, room_name = v1, room_volume = v2, airflow_rate = v3, ach = v4\<rparr>)
     (filter (\<lambda>r. row_id r = i) rs)"
  by (induction rs) auto

lemma execute_insert:
  "column_values v1 v2 v3 v4 = Some (name, volume, rate, changes) \<Longrightarrow>
   execute (Insert v1 v2 v3 v4) t =
     Inr ([\<lparr>row_id = id_seq t, room_name = name, room_volume = volume,
             airflow_rate = rate, ach = changes\<rparr>], 1,
          \<lparr>ach_data = ach_data t @
             [\<lparr>row_id = id_seq t, room_name = name, room_volume = volume,
               airflow_rate = rate, ach = changes\<rparr>],
           id_seq = id_seq t + 1\<rparr>)"
  by (simp add: Let_def)

lemma execute_update:
  "column_values v1 v2 v3 v4 = Some (name, volume, rate, changes) \<Longrightarrow>
   execute (Update v1 v2 v3 v4 i) t =
     Inr (map (\<lambda>r. \<lparr>row_id = i, room_name = name, room_volume = volume,
                      airflow_rate = rate, ach = changes\<rparr>)
            (filter (\<lambda>r. row_id r = i) (ach_data t)),
          length (filter (\<lambda>r. row_id r = i) (ach_data t)),
          t\<lparr>ach_data := map (\<lambda>r. if row_id r = i
             then \<lparr>row_id = i, room_name = name, room_volume = volume,
                   airflow_rate = rate, ach = changes\<rparr>
             else r) (ach_data t)\<rparr>)"
  by (simp add: Let_def update_map_eq update_map_hit)

lemma execute_refused:
  "column_values v1 v2 v3 v4 = None \<Longrightarrow>
   execute (Insert v1 v2 v3 v4) t = Inl (DriverError ''invalid input value'') \<and>
   execute (Update v1 v2 v3 v4 i) t = Inl (DriverError ''invalid input value'')"
  by simp

section \<open>What each handler gives\<close>

lemma get_root_fault:
  "router_get_root (Some e) s =
     (json 500 (message ''Error fetching data''),
      s\<lparr>queries := queries s @ [SelectAll],
        console := console s @ [(''Error fetching data:'', e)]\<rparr>)"
  by (simp add: router_get_root_def db_any_def db_query_fault console_error_def)

lemma get_root_ok:
  "router_get_root None s =
     (json 200 (JArr (map row_object (ach_data (database s)))),
      s\<lparr>queries := queries s @ [SelectAll]\<rparr>)"
  by (simp add: router_get_root_def db_any_def db_query_def)

lemma get_id_fault:
  "router_get_id (Some e) s i =
     (json 500 (message ''Error fetching data''),
      s\<lparr>queries := queries s @ [SelectById i],
        console := console s @ [(''Error fetching data:'', e)]\<rparr>)"
  by (simp add: router_get_id_def db_oneOrNone_def db_query_fault console_error_def)

lemma get_id_none:
  "\<forall>r \<in> set (ach_data (database s)). row_id r \<noteq> i \<Longrightarrow>
   router_get_id None s i =
     (json 404 (message ''Record not found''), s\<lparr>queries := queries s @ [SelectById i]\<rparr>)"
  by (simp add: router_get_id_def db_oneOrNone_def db_query_def Let_def filter_id_none)

lemma get_id_one:
  "filter (\<lambda>r. row_id r = i) (ach_data (database s)) = [r] \<Longrightarrow>
   router_get_id None s i =
     (json 200 (row_object r), s\<lparr>queries := queries s @ [SelectById i]\<rparr>)"
  by (simp add: router_get_id_def db_oneOrNone_def db_query_def Let_def)

lemma get_id_database:
  "database (snd (router_get_id fault s i)) = database s"
  by (cases fault)
     (simp_all add: router_get_id_def db_oneOrNone_def db_query_def Let_def
        console_error_def split: list.splits)

lemma post_missing:
  "missing_field b \<Longrightarrow>
   router_post_root fault s b = (json 400 (message ''All fields are required''), s)"
  by (simp add: router_post_root_def)

lemma post_fault:
  "\<not> missing_field b \<Longrightarrow>
   router_post_root (Some e) s b =
     (json 500 (message ''Error submitting data''),
      s\<lparr>queries := queries s @
           [Insert (property b ''roomName'') (property b ''roomVolume'')
                   (property b ''airflowRate'') (property b ''ach'')],
        console := console s @ [(''Error submitting data:'', e)]\<rparr>)"
  by (simp add: router_post_root_def db_one_def db_query_fault console_error_def)

lemma post_refused:
  assumes "\<not> missing_field b"
    and "column_values (property b ''roomName'') (property b ''roomVolume'')
           (property b ''airflowRate'') (property b ''ach'') = None"
  shows "router_post_root None s b =
     (json 500 (message ''Error submitting data''),
      s\<lparr>queries := queries s @
           [Insert (property b ''roomName'') (property b ''roomVolume'')
                   (property b ''airflowRate'') (property b ''ach'')],
        console := console s @
           [(''Error submitting data:'', DriverError ''invalid input value'')]\<rparr>)"
  using assms(1) execute_refused [OF assms(2), THEN conjunct1, of "database s"]
  by (simp add: router_post_root_def db_one_def db_query_refused console_error_def
      del: execute.simps)

lemma post_ok:
  assumes "\<not> missing_field b"
    and "column_values (property b ''roomName'') (property b ''roomVolume'')
           (property b ''airflowRate'') (property b ''ach'') =
         Some (name, volume, rate, changes)"
  shows "router_post_root None s b =
     (json 201 (row_object
        \<lparr>row_id = id_seq (database s), room_name = name, room_volume = volume,
          airflow_rate = rate, ach = changes\<rparr>),
      s\<lparr>queries := queries s @
           [Insert (property b ''roomName'') (property b ''roomVolume'')
                   (property b ''airflowRate'') (property b ''ach'')],
        database := \<lparr>ach_data = ach_data (database s) @
            [\<lparr>row_id = id_seq (database s), room_name = name, room_volume = volume,
              airflow_rate = rate, ach = changes\<rparr>],
          id_seq = id_seq (database s) + 1\<rparr>\<rparr>)"
  using assms(1) execute_insert [OF assms(2), of "database s"]
  by (simp add: router_post_root_def db_one_def db_query_ok del: execute.simps)

lemma put_missing:
  "missing_field b \<Longrightarrow>
   router_put_id fault s i b = (json 400 (message ''All fields are required''), s)"
  by (simp add: router_put_id_def)

lemma put_fault:
  "\<not> missing_field b \<Longrightarrow>
   router_put_id (Some e) s i b =
     (json 500 (message ''Error updating data''),
      s\<lparr>queries := queries s @
           [Update (property b ''roomName'') (property b ''roomVolume'')
                   (property b ''airflowRate'') (property b ''ach'') i],
        console := console s @ [(''Error updating data:'', e)]\<rparr>)"
  by (simp add: router_put_id_def db_one_def db_query_fault console_error_def)

lemma put_refused:
  assumes "\<not> missing_field b"
    and "column_values (property b ''roomName'') (property b ''roomVolume'')
           (property b ''airflowRate'') (property b ''ach'') = None"
  shows "router_put_id None s i b =
     (json 500 (message ''Error updating data''),
      s\<lparr>queries := queries s @
           [Update (property b ''roomName'') (property b ''roomVolume'')
                   (property b ''airflowRate'') (property b ''ach'') i],
        console := console s @
           [(''Error updating data:'', DriverError ''invalid input value'')]\<rparr>)"
  using assms(1) execute_refused [OF assms(2), THEN conjunct2, of i "database s"]
  by (simp add: router_put_id_def db_one_def db_query_refused console_error_def
      del: execute.simps)

lemma put_none:
  assumes "\<not> missing_field b"
    and "column_values (property b ''roomName'') (property b ''roomVolume'')
           (property b ''airflowRate'') (property b ''ach'') =
         Some (name, volume, rate, changes)"
    and "\<forall>r \<in> set (ach_data (database s)). row_id r \<noteq> i"
  shows "router_put_id None s i b =
     (json 500 (message ''Error updating data''),
      s\<lparr>queries := queries s @
           [Update (property b ''roomName'') (property b ''roomVolume'')
                   (property b ''airflowRate'') (property b ''ach'') i],
        console := console s @ [(''Error updating data:'', QueryResultError noData)]\<rparr>)"
proof -
  have "filter (\<lambda>r. row_id r = i) (ach_data (database s)) = []"
    using assms(3) by (rule filter_id_none)
  moreover have "(database s)\<lparr>ach_data := ach_data (database s)\<rparr> = database s"
    by simp
  ultimately show ?thesis
    using assms(1,3) execute_update [OF assms(2), of i "database s"]
    by (simp add: router_put_id_def db_one_def db_query_ok update_map_none
        console_error_def del: execute.simps)
qed

lemma put_one:
  assumes "\<not> missing_field b"
    and "column_values (property b ''roomName'') (property b ''roomVolume'')
           (property b ''airflowRate'') (property b ''ach'') =
         Some (name, volume, rate, changes)"
    and "filter (\<lambda>r. row_id r = i) (ach_data (database s)) = [r]"
  shows "router_put_id None s i b =
     (json 200 (row_object
        \<lparr>row_id = i, room_name = name, room_volume = volume,
          airflow_rate = rate, ach = changes\<rparr>),
      s\<lparr>queries := queries s @
           [Update (property b ''roomName'') (property b ''roomVolume'')
                   (property b ''airflowRate'') (property b ''ach'') i],
        database := (database s)\<lparr>ach_data :=
          map (\<lambda>r. if row_id r = i
                    then \<lparr>row_id = i, room_name = name, room_volume = volume,
                          airflow_rate = rate, ach = changes\<rparr>
                    else r) (ach_data (database s))\<rparr>\<rparr>)"
  using assms(1,3) execute_update [OF assms(2), of i "database s"]
  by (simp add: router_put_id_def db_one_def db_query_ok del: execute.simps)

lemma put_success:
  assumes "status (fst (router_put_id fault s i b)) = 200"
  shows "\<not> missing_field b \<and> fault = None \<and>
         (\<exists>name volume rate changes.
            column_values (property b ''roomName'') (property b ''roomVolume'')
              (property b ''airflowRate'') (property b ''ach'') =
            Some (name, volume, rate, changes)) \<and>
         (\<exists>r. filter (\<lambda>r. row_id r = i) (ach_data (database s)) = [r])"
proof (intro conjI)
  let ?cv = "column_values (property b ''roomName'') (property b ''roomVolume'')
              (property b ''airflowRate'') (property b ''ach'')"
  show valid: "\<not> missing_field b"
    using assms by (auto simp: put_missing status_json)
  show nofault: "fault = None"
    using assms valid by (cases fault) (simp_all add: put_fault status_json)
  show typed: "\<exists>name volume rate changes. ?cv = Some (name, volume, rate, changes)"
  proof (cases ?cv)
    case None
    with assms valid nofault show ?thesis
      by (simp add: put_refused status_json)
  next
    case (Some a)
    then show ?thesis by (cases a) simp
  qed
  then obtain name volume rate changes
    where cv: "?cv = Some (name, volume, rate, changes)" by blast
  show "\<exists>r. filter (\<lambda>r. row_id r = i) (ach_data (database s)) = [r]"
    using assms valid nofault execute_update [OF cv, of i "database s"]
    by (auto simp: router_put_id_def db_one_def db_query_ok status_json
        console_error_def map_eq_Cons_conv simp del: execute.simps split: list.splits)
qed

lemma delete_fault:
  "router_delete_id (Some e) s i =
     (json 500 (message ''Error deleting data''),
      s\<lparr>queries := queries s @ [DeleteById i],
        console := console s @ [(''Error deleting data:'', e)]\<rparr>)"
  by (simp add: router_delete_id_def db_result_def db_query_fault console_error_def)

lemma delete_ok:
  "router_delete_id None s i =
     (if \<exists>r \<in> set (ach_data (database s)). row_id r = i then send 204
      else json 404 (message ''Record not found''),
      s\<lparr>queries := queries s @ [DeleteById i],
        database := (database s)\<lparr>ach_data :=
          filter (\<lambda>r. row_id r \<noteq> i) (ach_data (database s))\<rparr>\<rparr>)"
  by (simp add: router_delete_id_def db_result_def db_query_def filter_empty_conv)

text \<open>A request that passes the presence check sends exactly one statement.\<close>

lemma db_one_queries: "queries (snd (db_one fault q s)) = queries s @ [q]"
proof -
  have sent: "queries (snd (db_query fault q s)) = queries s @ [q]"
    by (simp add: db_query_def Let_def split: option.splits sum.splits prod.splits)
  obtain res s' where q: "db_query fault q s = (res, s')"
    by (cases "db_query fault q s")
  with sent have "queries s' = queries s @ [q]"
    by simp
  then show ?thesis
    by (simp add: db_one_def q split: sum.splits list.splits prod.splits)
qed

lemma post_sends_one:
  assumes "\<not> missing_field b"
  shows "queries (snd (router_post_root fault s b)) =
     queries s @ [Insert (property b ''roomName'') (property b ''roomVolume'')
                         (property b ''airflowRate'') (property b ''ach'')]"
proof -
  let ?q = "Insert (property b ''roomName'') (property b ''roomVolume'')
                   (property b ''airflowRate'') (property b ''ach'')"
  obtain res s' where one: "db_one fault ?q s = (res, s')"
    by (cases "db_one fault ?q s")
  with db_one_queries [of fault ?q s] have "queries s' = queries s @ [?q]"
    by simp
  with assms show ?thesis
    by (simp add: router_post_root_def one console_error_def split: sum.splits)
qed

lemma put_sends_one:
  assumes "\<not> missing_field b"
  shows "queries (snd (router_put_id fault s i b)) =
     queries s @ [Update (property b ''roomName'') (property b ''roomVolume'')
                         (property b ''airflowRate'') (property b ''ach'') i]"
proof -
  let ?q = "Update (property b ''roomName'') (property b ''roomVolume'')
                   (property b ''airflowRate'') (property b ''ach'') i"
  obtain res s' where one: "db_one fault ?q s = (res, s')"
    by (cases "db_one fault ?q s")
  with db_one_queries [of fault ?q s] have "queries s' = queries s @ [?q]"
    by simp
  with assms show ?thesis
    by (simp add: router_put_id_def one console_error_def split: sum.splits)
qed

lemma post_created:
  assumes "status (fst (router_post_root fault s b)) = 201"
  shows "\<not> missing_field b \<and> fault = None \<and>
         (\<exists>name volume rate changes.
            column_values (property b ''roomName'') (property b ''roomVolume'')
              (property b ''airflowRate'') (property b ''ach'') =
            Some (name, volume, rate, changes))"
proof (intro conjI)
  let ?cv = "column_values (property b ''roomName'') (property b ''roomVolume'')
              (property b ''airflowRate'') (property b ''ach'')"
  show valid: "\<not> missing_field b"
    using assms by (auto simp: post_missing status_json)
  show nofault: "fault = None"
    using assms valid by (cases fault) (simp_all add: post_fault status_json)
  show "\<exists>name volume rate changes. ?cv = Some (name, volume, rate, changes)"
  proof (cases ?cv)
    case None
    with assms valid nofault show ?thesis
      by (simp add: post_refused status_json)
  next
    case (Some a)
    then show ?thesis by (cases a) simp
  qed
qed

lemma post_not_400:
  assumes "\<not> missing_field b"
  shows "status (fst (router_post_root fault s b)) \<noteq> 400"
proof (cases fault)
  case (Some e)
  with assms show ?thesis by (simp add: post_fault status_json)
next
  case None
  with assms show ?thesis
    by (simp add: router_post_root_def db_one_def db_query_def status_json
        del: execute.simps split: sum.splits list.splits prod.splits)
qed

lemma put_not_400:
  assumes "\<not> missing_field b"
  shows "status (fst (router_put_id fault s i b)) \<noteq> 400"
proof (cases fault)
  case (Some e)
  with assms show ?thesis by (simp add: put_fault status_json)
next
  case None
  with assms show ?thesis
    by (simp add: router_put_id_def db_one_def db_query_def status_json
        del: execute.simps split: sum.splits list.splits prod.splits)
qed

section \<open>The invariant of the generated identifiers\<close>

lemma consistent_empty: "consistent \<lparr>ach_data = [], id_seq = n\<rparr>"
  by (simp add: consistent_def)

lemma consistent_insert:
  assumes "consistent t"
  shows "consistent \<lparr>ach_data = ach_data t @
            [\<lparr>row_id = id_seq t, room_name = v1, room_volume = v2,
              airflow_rate = v3, ach = v4\<rparr>], id_seq = id_seq t + 1\<rparr>"
proof -
  from assms have below: "\<forall>r \<in> set (ach_data t). row_id r < id_seq t"
    and dist: "distinct (map row_id (ach_data t))"
    by (simp_all add: consistent_def)
  from below have "id_seq t \<notin> row_id ` set (ach_data t)"
    by auto
  moreover from below have "\<forall>r \<in> set (ach_data t). row_id r < id_seq t + 1"
    by auto
  ultimately show ?thesis
    using dist by (simp add: consistent_def)
qed

lemma consistent_update:
  assumes "consistent t"
  shows "consistent (t\<lparr>ach_data := map (\<lambda>r. if row_id r = i
         then \<lparr>row_id = i, room_name = v1, room_volume = v2, airflow_rate = v3, ach = v4\<rparr>
         else r) (ach_data t)\<rparr>)"
proof -
  let ?f = "\<lambda>r. if row_id r = i
         then \<lparr>row_id = i, room_name = v1, room_volume = v2, airflow_rate = v3, ach = v4\<rparr>
         else r"
  from assms have below: "\<forall>r \<in> set (ach_data t). row_id r < id_seq t"
    and dist: "distinct (map row_id (ach_data t))"
    by (simp_all add: consistent_def)
  have ids: "map row_id (map ?f (ach_data t)) = map row_id (ach_data t)"
    by (rule update_map_ids)
  have "\<forall>r \<in> set (map ?f (ach_data t)). row_id r < id_seq t"
  proof
    fix r assume "r \<in> set (map ?f (ach_data t))"
    then have "row_id r \<in> set (map row_id (map ?f (ach_data t)))"
      by (simp only: set_map) (rule imageI)
    then have "row_id r \<in> row_id ` set (ach_data t)"
      by (simp only: ids set_map)
    with below show "row_id r < id_seq t" by auto
  qed
  moreover have "distinct (map row_id (map ?f (ach_data t)))"
    using dist by (simp only: ids)
  ultimately show ?thesis
    by (simp add: consistent_def del: set_map map_map)
qed

lemma consistent_delete:
  assumes "consistent t"
  shows "consistent (t\<lparr>ach_data := filter (\<lambda>r. row_id r \<noteq> i) (ach_data t)\<rparr>)"
  using assms by (simp add: consistent_def distinct_map_filter)

section \<open>Each handler follows the lifecycle\<close>

lemma step_get_root:
  "database (snd (router_get_root fault s)) = database s"
  by (cases fault) (simp_all add: get_root_fault get_root_ok)

lemma step_post:
  assumes "consistent (database s)"
  shows "consistent (database (snd (router_post_root fault s b))) \<and>
         ach_data (database (snd (router_post_root fault s b))) =
           spec_lifecycle (ach_data (database s)) (POST_root b) (fst (router_post_root fault s b))"
proof (cases "missing_field b")
  case True
  with assms show ?thesis by (simp add: post_missing status_json)
next
  case valid: False
  let ?cv = "column_values (property b ''roomName'') (property b ''roomVolume'')
               (property b ''airflowRate'') (property b ''ach'')"
  show ?thesis
  proof (cases fault)
    case (Some e)
    with assms valid show ?thesis by (simp add: post_fault status_json)
  next
    case None
    show ?thesis
    proof (cases ?cv)
      case refused: None
      with assms valid None show ?thesis
        by (simp add: post_refused status_json)
    next
      case (Some a)
      then obtain name volume rate changes
        where cv: "?cv = Some (name, volume, rate, changes)" by (cases a) simp
      from None valid consistent_insert [OF assms] show ?thesis
        by (simp add: post_ok [OF valid cv] status_json returned_id_row cv)
    qed
  qed
qed

lemma step_put:
  assumes "consistent (database s)"
  shows "consistent (database (snd (router_put_id fault s i b))) \<and>
         ach_data (database (snd (router_put_id fault s i b))) =
           spec_lifecycle (ach_data (database s)) (PUT_id i b) (fst (router_put_id fault s i b))"
proof (cases "missing_field b")
  case True
  with assms show ?thesis by (simp add: put_missing status_json)
next
  case valid: False
  let ?cv = "column_values (property b ''roomName'') (property b ''roomVolume'')
               (property b ''airflowRate'') (property b ''ach'')"
  show ?thesis
  proof (cases fault)
    case (Some e)
    with assms valid show ?thesis by (simp add: put_fault status_json)
  next
    case None
    show ?thesis
    proof (cases ?cv)
      case refused: None
      with assms valid None show ?thesis
        by (simp add: put_refused status_json)
    next
      case (Some a)
      then obtain name volume rate changes
        where cv: "?cv = Some (name, volume, rate, changes)" by (cases a) simp
      from assms have "distinct (map row_id (ach_data (database s)))"
        by (simp add: consistent_def)
      from filter_id_cases [OF this, of i] show ?thesis
      proof
        assume no: "\<forall>r \<in> set (ach_data (database s)). row_id r \<noteq> i"
        with assms None show ?thesis
          by (simp add: put_none [OF valid cv no] status_json)
      next
        assume "\<exists>r \<in> set (ach_data (database s)). row_id r = i \<and>
                  filter (\<lambda>r. row_id r = i) (ach_data (database s)) = [r]"
        then obtain r where one: "filter (\<lambda>r. row_id r = i) (ach_data (database s)) = [r]"
          by blast
        from None consistent_update [OF assms] show ?thesis
          by (simp add: put_one [OF valid cv one] status_json cv)
      qed
    qed
  qed
qed

lemma step_delete:
  assumes "consistent (database s)"
  shows "consistent (database (snd (router_delete_id fault s i))) \<and>
         ach_data (database (snd (router_delete_id fault s i))) =
           spec_lifecycle (ach_data (database s)) (DELETE_id i) (fst (router_delete_id fault s i))"
proof (cases fault)
  case (Some e)
  with assms show ?thesis by (simp add: delete_fault status_json)
next
  case None
  show ?thesis
  proof (cases "\<exists>r \<in> set (ach_data (database s)). row_id r = i")
    case True
    with None consistent_delete [OF assms] show ?thesis
      by (simp add: delete_ok send_def)
  next
    case False
    then have "filter (\<lambda>r. row_id r \<noteq> i) (ach_data (database s)) = ach_data (database s)"
      by (intro filter_keep_all) simp
    with False None consistent_delete [OF assms, of i] show ?thesis
      by (simp add: delete_ok status_json)
  qed
qed

lemma step_handle:
  assumes "consistent (database s)"
  shows "consistent (database (snd (handle fault s req))) \<and>
         ach_data (database (snd (handle fault s req))) =
           spec_lifecycle (ach_data (database s)) req (fst (handle fault s req))"
proof (cases req)
  case GET_root
  with assms show ?thesis by (simp add: step_get_root)
next
  case (GET_id i)
  with assms show ?thesis by (simp add: get_id_database)
next
  case (POST_root b)
  with step_post [OF assms] show ?thesis by simp
next
  case (PUT_id i b)
  with step_put [OF assms] show ?thesis by simp
next
  case (DELETE_id i)
  with step_delete [OF assms] show ?thesis by simp
qed

lemma run_follows_lifecycle:
  assumes "consistent (database s)"
  shows "consistent (database (fst (run s (ach_data (database s)) tr))) \<and>
         ach_data (database (fst (run s (ach_data (database s)) tr))) =
           snd (run s (ach_data (database s)) tr)"
  using assms
proof (induction tr arbitrary: s)
  case Nil
  then show ?case by simp
next
  case (Cons a tr)
  obtain fault req where a: "a = (fault, req)" by (cases a)
  obtain res s1 where h: "handle fault s req = (res, s1)" by (cases "handle fault s req")
  from step_handle [OF Cons.prems, of fault req]
  have c1: "consistent (database s1)"
    and l1: "spec_lifecycle (ach_data (database s)) req res = ach_data (database s1)"
    by (simp_all add: h)
  have "run s (ach_data (database s)) (a # tr) = run s1 (ach_data (database s1)) tr"
    by (simp add: a h l1)
  with Cons.IH [OF c1] show ?case by simp
qed

section \<open>The example data evaluated\<close>

lemma lab_a_fields:
  "property lab_a ''roomName'' = JStr ''Lab A''"
  "property lab_a ''roomVolume'' = JNum (Val 100)"
  "property lab_a ''airflowRate'' = JNum (Val 2000)"
  "property lab_a ''ach'' = JNum (Val 20)"
  by (simp_all add: lab_a_def property_def)

lemma lab_b_fields:
  "property lab_b ''roomName'' = JStr ''Lab B''"
  "property lab_b ''roomVolume'' = JNum (Val 150)"
  "property lab_b ''airflowRate'' = JNum (Val 3000)"
  "property lab_b ''ach'' = JNum (Val 20)"
  by (simp_all add: lab_b_def property_def)

lemma lab_a_valid: "\<not> missing_field lab_a"
  by (simp add: missing_field_def lab_a_fields)

lemma lab_b_valid: "\<not> missing_field lab_b"
  by (simp add: missing_field_def lab_b_fields)

lemma lab_a_columns:
  "column_values (property lab_a ''roomName'') (property lab_a ''roomVolume'')
     (property lab_a ''airflowRate'') (property lab_a ''ach'') = Some (''Lab A'', 100, 2000, 20)"
  by (simp add: lab_a_fields column_values_typed)

lemma lab_b_columns:
  "column_values (property lab_b ''roomName'') (property lab_b ''roomVolume'')
     (property lab_b ''airflowRate'') (property lab_b ''ach'') = Some (''Lab B'', 150, 3000, 20)"
  by (simp add: lab_b_fields column_values_typed)

lemma session_live:
  "snd (run empty_server [] session) =
     [\<lparr>row_id = 2, room_name = ''Lab B'', room_volume = 150,
       airflow_rate = 3000, ach = 20\<rparr>]"
proof -
  have bad: "missing_field zero_ach"
    by (simp add: missing_field_def zero_ach_def property_def)
  show ?thesis
    by (simp add: session_def empty_server_def post_ok [OF lab_a_valid lab_a_columns]
        post_ok [OF lab_b_valid lab_b_columns] post_fault post_missing
        put_none [OF lab_a_valid lab_a_columns] get_id_one get_id_none delete_ok
        lab_a_valid lab_b_valid bad status_json send_def returned_id_row
        lab_a_columns lab_b_columns)
qed

section \<open>The properties\<close>

text \<open>
  Claim C1, as stated: for every body whose four fields are present and truthy, Create
  followed by Get-by-id with the returned id yields a record whose four business fields
  equal the input fields. It fails on a body whose fields are truthy but not all of the
  types of the data model: with the string \<^verbatim>\<open>"abc"\<close> as room volume the body passes
  the presence check, the storage refuses the value for the number column, and Create
  answers 500 with \<^verbatim>\<open>Error submitting data\<close>; no record is created and no id returned.
\<close>
theorem create_then_get_roundtrip_counterexample:
  "to_boolean (property text_volume ''roomName'') \<and>
   to_boolean (property text_volume ''roomVolume'') \<and>
   to_boolean (property text_volume ''airflowRate'') \<and>
   to_boolean (property text_volume ''ach'') \<and>
   consistent (database empty_server) \<and>
   fst (router_post_root None empty_server text_volume) =
     \<lparr>status = 500, payload = Some (JObj [(''message'', JStr ''Error submitting data'')])\<rparr> \<and>
   ach_data (database (snd (router_post_root None empty_server text_volume))) = []"
proof -
  have fields: "property text_volume ''roomName'' = JStr ''Lab A''"
    "property text_volume ''roomVolume'' = JStr ''abc''"
    "property text_volume ''airflowRate'' = JNum (Val 2000)"
    "property text_volume ''ach'' = JNum (Val 20)"
    by (simp_all add: text_volume_def property_def)
  have valid: "\<not> missing_field text_volume"
    by (simp add: missing_field_def fields)
  have refused: "column_values (property text_volume ''roomName'')
      (property text_volume ''roomVolume'') (property text_volume ''airflowRate'')
      (property text_volume ''ach'') = None"
    by (simp add: fields column_values_def)
  have "consistent (database empty_server)"
    by (simp add: empty_server_def consistent_def)
  then show ?thesis
    by (simp add: post_refused [OF valid refused] json_message fields)
       (simp add: empty_server_def)
qed

text \<open>
  Claim C1, amended: for every body whose \<^verbatim>\<open>roomName\<close> is a non-empty string and whose
  \<^verbatim>\<open>roomVolume\<close>, \<^verbatim>\<open>airflowRate\<close> and \<^verbatim>\<open>ach\<close> are finite numbers other than zero (the
  truthy values of the types of the data model), Create followed by Get-by-id with the id
  that Create returned yields a record whose four business fields hold the values of the
  input fields and which carries the newly assigned id, an id no stored row had. Both
  calls are runs in which the persistence layer raises no failure, on a table whose
  identifiers were generated by the storage (\<open>consistent\<close>). The record is the row as the
  storage returns it, so the values stand under the column names.
\<close>
theorem create_then_get_roundtrip_typed:
  assumes "property b ''roomName'' = JStr name" and "name \<noteq> []"
    and "property b ''roomVolume'' = JNum (Val volume)" and "volume \<noteq> 0"
    and "property b ''airflowRate'' = JNum (Val rate)" and "rate \<noteq> 0"
    and "property b ''ach'' = JNum (Val changes)" and "changes \<noteq> 0"
    and "consistent (database s)"
  shows "\<exists>n. n \<notin> row_id ` set (ach_data (database s)) \<and>
           fst (router_post_root None s b) =
             \<lparr>status = 201,
              payload = Some (JObj [(''id'', JNum (Val (of_int n))),
                                    (''room_name'', property b ''roomName''),
                                    (''room_volume'', property b ''roomVolume''),
                                    (''airflow_rate'', property b ''airflowRate''),
                                    (''ach'', property b ''ach'')])\<rparr> \<and>
           fst (router_get_id None (snd (router_post_root None s b)) n) =
             \<lparr>status = 200,
              payload = Some (JObj [(''id'', JNum (Val (of_int n))),
                                    (''room_name'', property b ''roomName''),
                                    (''room_volume'', property b ''roomVolume''),
                                    (''airflow_rate'', property b ''airflowRate''),
                                    (''ach'', property b ''ach'')])\<rparr>"
proof -
  let ?t = "database s"
  let ?r = "\<lparr>row_id = id_seq ?t, room_name = name, room_volume = volume,
             airflow_rate = rate, ach = changes\<rparr>"
  have valid: "\<not> missing_field b"
    using assms(1-8) by (simp add: missing_field_def)
  have cv: "column_values (property b ''roomName'') (property b ''roomVolume'')
              (property b ''airflowRate'') (property b ''ach'') =
            Some (name, volume, rate, changes)"
    using assms(1,3,5,7) by (simp add: column_values_typed)
  have below: "\<forall>r \<in> set (ach_data ?t). row_id r < id_seq ?t"
    using assms(9) by (simp add: consistent_def)
  then have fresh: "id_seq ?t \<notin> row_id ` set (ach_data ?t)"
    by auto
  have "filter (\<lambda>r. row_id r = id_seq ?t) (ach_data ?t) = []"
    using below by (intro filter_id_none) auto
  then have "filter (\<lambda>r. row_id r = id_seq ?t)
      (ach_data (database (snd (router_post_root None s b)))) = [?r]"
    by (simp add: post_ok [OF valid cv])
  then have get: "fst (router_get_id None (snd (router_post_root None s b)) (id_seq ?t)) =
      json 200 (row_object ?r)"
    by (simp add: get_id_one)
  have post: "fst (router_post_root None s b) = json 201 (row_object ?r)"
    by (simp add: post_ok [OF valid cv])
  show ?thesis
    using fresh
    by (intro exI [of _ "id_seq ?t"])
       (simp add: post get json_row, simp add: row_object_def assms(1,3,5,7))
qed

theorem create_then_get_roundtrip_typed_witness:
  "property lab_a ''roomName'' = JStr ''Lab A'' \<and> ''Lab A'' \<noteq> [] \<and>
   property lab_a ''roomVolume'' = JNum (Val 100) \<and> (100 :: rat) \<noteq> 0 \<and>
   property lab_a ''airflowRate'' = JNum (Val 2000) \<and> (2000 :: rat) \<noteq> 0 \<and>
   property lab_a ''ach'' = JNum (Val 20) \<and> (20 :: rat) \<noteq> 0 \<and>
   consistent (database two_rooms) \<and>
   (\<exists>n. n \<notin> {1, 2} \<and>
      fst (router_post_root None two_rooms lab_a) =
        \<lparr>status = 201,
         payload = Some (JObj [(''id'', JNum (Val (of_int n))),
                               (''room_name'', JStr ''Lab A''),
                               (''room_volume'', JNum (Val 100)),
                               (''airflow_rate'', JNum (Val 2000)),
                               (''ach'', JNum (Val 20))])\<rparr> \<and>
      fst (router_get_id None (snd (router_post_root None two_rooms lab_a)) n) =
        \<lparr>status = 200,
         payload = Some (JObj [(''id'', JNum (Val (of_int n))),
                               (''room_name'', JStr ''Lab A''),
                               (''room_volume'', JNum (Val 100)),
                               (''airflow_rate'', JNum (Val 2000)),
                               (''ach'', JNum (Val 20))])\<rparr>) \<and>
   fst (router_get_id None (snd (router_post_root None two_rooms lab_a)) 3) =
     \<lparr>status = 200,
      payload = Some (JObj [(''id'', JNum (Val 3)), (''room_name'', JStr ''Lab A''),
                            (''room_volume'', JNum (Val 100)),
                            (''airflow_rate'', JNum (Val 2000)),
                            (''ach'', JNum (Val 20))])\<rparr>"
proof -
  have c: "consistent (database two_rooms)"
    by (simp add: two_rooms_def consistent_def)
  have ids: "row_id ` set (ach_data (database two_rooms)) = {1, 2}"
    by (simp add: two_rooms_def)
  have "filter (\<lambda>r. row_id r = 3)
      (ach_data (database (snd (router_post_root None two_rooms lab_a)))) =
      [\<lparr>row_id = 3, room_name = ''Lab A'', room_volume = 100,
        airflow_rate = 2000, ach = 20\<rparr>]"
    by (simp add: post_ok [OF lab_a_valid lab_a_columns] two_rooms_def)
  then have "fst (router_get_id None (snd (router_post_root None two_rooms lab_a)) 3) =
     \<lparr>status = 200,
      payload = Some (JObj [(''id'', JNum (Val 3)), (''room_name'', JStr ''Lab A''),
                            (''room_volume'', JNum (Val 100)),
                            (''airflow_rate'', JNum (Val 2000)),
                            (''ach'', JNum (Val 20))])\<rparr>"
    by (simp add: get_id_one json_row) (simp add: row_object_def)
  then show ?thesis
    using create_then_get_roundtrip_typed
      [of lab_a "''Lab A''" 100 2000 20 two_rooms] c
    by (simp add: lab_a_fields ids)
qed

text \<open>
  Claim C2. A Create or Update request in which one of the four fields is omitted,
  \<^verbatim>\<open>null\<close>, the empty string or the number 0 is answered with 400 and the message
  \<^verbatim>\<open>All fields are required\<close>, whatever the other fields, the stored rows and the
  persistence layer do; so it is never answered with a success.
\<close>
theorem create_update_reject_falsy:
  assumes "k \<in> {''roomName'', ''roomVolume'', ''airflowRate'', ''ach''}"
    and "b k = None \<or> b k = Some JNull \<or> b k = Some (JStr '''') \<or> b k = Some (JNum (Val 0))"
  shows "fst (router_post_root fault s b) =
           \<lparr>status = 400, payload = Some (JObj [(''message'', JStr ''All fields are required'')])\<rparr>
       \<and> fst (router_put_id fault s i b) =
           \<lparr>status = 400, payload = Some (JObj [(''message'', JStr ''All fields are required'')])\<rparr>"
proof -
  from assms(2) have "\<not> to_boolean (property b k)"
    by (auto simp: property_def)
  with assms(1) have "missing_field b"
    by (rule missing_fieldI)
  then show ?thesis
    by (simp add: post_missing put_missing json_message)
qed

theorem create_update_reject_falsy_witness:
  "fst (router_post_root None empty_server zero_ach) =
     \<lparr>status = 400, payload = Some (JObj [(''message'', JStr ''All fields are required'')])\<rparr>
   \<and> fst (router_put_id None two_rooms 1 zero_ach) =
     \<lparr>status = 400, payload = Some (JObj [(''message'', JStr ''All fields are required'')])\<rparr>"
proof -
  have "zero_ach ''ach'' = Some (JNum (Val 0))"
    by (simp add: zero_ach_def)
  then show ?thesis
    using create_update_reject_falsy [of "''ach''" zero_ach None empty_server 1]
      create_update_reject_falsy [of "''ach''" zero_ach None two_rooms 1]
    by simp
qed

text \<open>
  Claim C3. An Update request with a valid body whose identifier matches no stored row is
  answered with 500 and the message \<^verbatim>\<open>Error updating data\<close>, not with 404:
  \<^verbatim>\<open>db.one\<close> rejects when the statement returns no row, and the handler answers every
  rejection the same way. The table is left as it was.
\<close>
theorem update_missing_row_is_server_error:
  assumes "to_boolean (property b ''roomName'')" and "to_boolean (property b ''roomVolume'')"
    and "to_boolean (property b ''airflowRate'')" and "to_boolean (property b ''ach'')"
    and "\<forall>r \<in> set (ach_data (database s)). row_id r \<noteq> i"
  shows "fst (router_put_id fault s i b) =
           \<lparr>status = 500, payload = Some (JObj [(''message'', JStr ''Error updating data'')])\<rparr>
       \<and> status (fst (router_put_id fault s i b)) \<noteq> 404
       \<and> database (snd (router_put_id fault s i b)) = database s"
proof -
  have valid: "\<not> missing_field b"
    using assms(1-4) by (simp add: missing_field_def)
  let ?cv = "column_values (property b ''roomName'') (property b ''roomVolume'')
               (property b ''airflowRate'') (property b ''ach'')"
  show ?thesis
  proof (cases fault)
    case None
    show ?thesis
    proof (cases ?cv)
      case refused: None
      with valid \<open>fault = None\<close> show ?thesis
        by (simp add: put_refused json_message)
    next
      case (Some a)
      then obtain name volume rate changes
        where cv: "?cv = Some (name, volume, rate, changes)" by (cases a) simp
      from \<open>fault = None\<close> show ?thesis
        by (simp add: put_none [OF valid cv assms(5)] json_message)
    qed
  next
    case (Some e)
    with valid show ?thesis
      by (simp add: put_fault json_message)
  qed
qed

theorem update_missing_row_is_server_error_witness:
  "to_boolean (property lab_b ''roomName'') \<and> to_boolean (property lab_b ''roomVolume'') \<and>
   to_boolean (property lab_b ''airflowRate'') \<and> to_boolean (property lab_b ''ach'') \<and>
   7 \<notin> row_id ` set (ach_data (database two_rooms)) \<and>
   fst (router_put_id None two_rooms 7 lab_b) =
     \<lparr>status = 500, payload = Some (JObj [(''message'', JStr ''Error updating data'')])\<rparr> \<and>
   database (snd (router_put_id None two_rooms 7 lab_b)) = database two_rooms"
  using update_missing_row_is_server_error [of lab_b two_rooms 7 None]
  by (simp add: lab_b_fields two_rooms_def)

text \<open>
  Claim C4. A Delete request on which the persistence layer raises no failure is answered
  with 204 and no body when at least one row has the identifier, and those rows are
  removed; it is answered with 404 when no row has it.
\<close>
theorem delete_found_or_not_found:
  "((\<exists>r \<in> set (ach_data (database s)). row_id r = i) \<longrightarrow>
      fst (router_delete_id None s i) = \<lparr>status = 204, payload = None\<rparr> \<and>
      ach_data (database (snd (router_delete_id None s i))) =
        filter (\<lambda>r. row_id r \<noteq> i) (ach_data (database s))) \<and>
   ((\<forall>r \<in> set (ach_data (database s)). row_id r \<noteq> i) \<longrightarrow>
      fst (router_delete_id None s i) =
        \<lparr>status = 404, payload = Some (JObj [(''message'', JStr ''Record not found'')])\<rparr>)"
  by (simp add: delete_ok send_def json_message)

theorem delete_found_or_not_found_witness:
  "fst (router_delete_id None two_rooms 2) = \<lparr>status = 204, payload = None\<rparr> \<and>
   map row_id (ach_data (database (snd (router_delete_id None two_rooms 2)))) = [1] \<and>
   fst (router_delete_id None two_rooms 7) =
     \<lparr>status = 404, payload = Some (JObj [(''message'', JStr ''Record not found'')])\<rparr>"
  using delete_found_or_not_found [of two_rooms 2] delete_found_or_not_found [of two_rooms 7]
  by (simp add: two_rooms_def)

text \<open>
  Claim C5. A Get-by-id request on which the persistence layer raises no failure is
  answered with status 200 and the stored row that has the identifier, and with 404 when no
  stored row has it. Identifiers are unique in the table, as the storage generates them.
\<close>
theorem get_by_id_found_or_not_found:
  assumes "distinct (map row_id (ach_data (database s)))"
  shows "(\<forall>r \<in> set (ach_data (database s)). row_id r = i \<longrightarrow>
            fst (router_get_id None s i) = \<lparr>status = 200, payload = Some (row_object r)\<rparr>) \<and>
         ((\<forall>r \<in> set (ach_data (database s)). row_id r \<noteq> i) \<longrightarrow>
            fst (router_get_id None s i) =
              \<lparr>status = 404, payload = Some (JObj [(''message'', JStr ''Record not found'')])\<rparr>)"
proof (intro conjI ballI impI)
  fix r assume "r \<in> set (ach_data (database s))" "row_id r = i"
  with assms have "filter (\<lambda>x. row_id x = i) (ach_data (database s)) = [r]"
    using filter_id_single by blast
  then show "fst (router_get_id None s i) = \<lparr>status = 200, payload = Some (row_object r)\<rparr>"
    by (simp add: get_id_one json_row)
next
  assume "\<forall>r \<in> set (ach_data (database s)). row_id r \<noteq> i"
  then show "fst (router_get_id None s i) =
        \<lparr>status = 404, payload = Some (JObj [(''message'', JStr ''Record not found'')])\<rparr>"
    by (simp add: get_id_none json_message)
qed

theorem get_by_id_found_or_not_found_witness:
  "distinct (map row_id (ach_data (database two_rooms))) \<and>
   fst (router_get_id None two_rooms 2) =
     \<lparr>status = 200,
      payload = Some (JObj [(''id'', JNum (Val 2)), (''room_name'', JStr ''Hall''),
                            (''room_volume'', JNum (Val 900)),
                            (''airflow_rate'', JNum (Val 4500)), (''ach'', JNum (Val 5))])\<rparr> \<and>
   fst (router_get_id None two_rooms 7) =
     \<lparr>status = 404, payload = Some (JObj [(''message'', JStr ''Record not found'')])\<rparr>"
  using get_by_id_found_or_not_found [of two_rooms 2] get_by_id_found_or_not_found [of two_rooms 7]
  by (simp add: two_rooms_def row_object_def)

text \<open>
  Claim C6. Two runs of the same operation on which the persistence layer raises the
  failures \<open>e1\<close> and \<open>e2\<close> send the same response, whatever the two failures, states and
  inputs are (for Create and Update: bodies that pass the presence check, since no other
  body reaches the persistence layer). The response is 500 with the operation's fixed
  message, in which the failure does not occur; the failure is written to the console of
  the server, and only there.
\<close>
theorem storage_failure_response_is_static:
  "fst (router_get_root (Some e1) s1) = fst (router_get_root (Some e2) s2) \<and>
   fst (router_get_id (Some e1) s1 i1) = fst (router_get_id (Some e2) s2 i2) \<and>
   (\<not> missing_field b1 \<and> \<not> missing_field b2 \<longrightarrow>
      fst (router_post_root (Some e1) s1 b1) = fst (router_post_root (Some e2) s2 b2) \<and>
      fst (router_put_id (Some e1) s1 i1 b1) = fst (router_put_id (Some e2) s2 i2 b2)) \<and>
   fst (router_delete_id (Some e1) s1 i1) = fst (router_delete_id (Some e2) s2 i2) \<and>
   fst (router_get_root (Some e1) s1) = json 500 (message ''Error fetching data'') \<and>
   fst (router_get_id (Some e1) s1 i1) = json 500 (message ''Error fetching data'') \<and>
   (\<not> missing_field b1 \<longrightarrow>
      fst (router_post_root (Some e1) s1 b1) = json 500 (message ''Error submitting data'') \<and>
      fst (router_put_id (Some e1) s1 i1 b1) = json 500 (message ''Error updating data'')) \<and>
   fst (router_delete_id (Some e1) s1 i1) = json 500 (message ''Error deleting data'') \<and>
   console (snd (router_get_root (Some e1) s1)) =
     console s1 @ [(''Error fetching data:'', e1)] \<and>
   console (snd (router_get_id (Some e1) s1 i1)) =
     console s1 @ [(''Error fetching data:'', e1)] \<and>
   (\<not> missing_field b1 \<longrightarrow>
      console (snd (router_post_root (Some e1) s1 b1)) =
        console s1 @ [(''Error submitting data:'', e1)] \<and>
      console (snd (router_put_id (Some e1) s1 i1 b1)) =
        console s1 @ [(''Error updating data:'', e1)]) \<and>
   console (snd (router_delete_id (Some e1) s1 i1)) =
     console s1 @ [(''Error deleting data:'', e1)]"
  by (simp add: get_root_fault get_id_fault post_fault put_fault delete_fault)

theorem storage_failure_response_is_static_witness:
  "fst (router_post_root (Some (DriverError ''connection refused'')) empty_server lab_a) =
     fst (router_post_root (Some (DriverError ''duplicate key'')) two_rooms lab_b) \<and>
   fst (router_post_root (Some (DriverError ''connection refused'')) empty_server lab_a) =
     \<lparr>status = 500, payload = Some (JObj [(''message'', JStr ''Error submitting data'')])\<rparr> \<and>
   fst (router_put_id (Some (DriverError ''connection refused'')) empty_server 1 lab_a) =
     \<lparr>status = 500, payload = Some (JObj [(''message'', JStr ''Error updating data'')])\<rparr> \<and>
   fst (router_get_id (Some (DriverError ''connection refused'')) empty_server 1) =
     \<lparr>status = 500, payload = Some (JObj [(''message'', JStr ''Error fetching data'')])\<rparr> \<and>
   console (snd (router_post_root (Some (DriverError ''connection refused'')) empty_server lab_a)) =
     [(''Error submitting data:'', DriverError ''connection refused'')]"
proof -
  have quiet: "console empty_server = []"
    by (simp add: empty_server_def)
  show ?thesis
    using storage_failure_response_is_static
      [of "DriverError ''connection refused''" empty_server "DriverError ''duplicate key''"
          two_rooms 1 1 lab_a lab_b]
    by (auto simp: lab_a_valid lab_b_valid json_message quiet)
qed

text \<open>
  Claim C7. After any sequence of requests, with any failures of the persistence layer
  along it, List (when the layer raises no failure on it) answers 200 with one object for
  every record that \<open>spec_lifecycle\<close> holds -- the records that were there at the start or
  were created since, with the fields of their last update, and that no delete has
  destroyed -- and with nothing else. No two of these records share an identifier, so
  each is listed exactly once, and each object carries the four business columns.
\<close>
theorem list_returns_live_records_once:
  assumes "consistent (database s0)"
    and "run s0 (ach_data (database s0)) tr = (s, live)"
  shows "fst (router_get_root None s) =
           \<lparr>status = 200, payload = Some (JArr (map row_object live))\<rparr> \<and>
         distinct (map row_id live) \<and>
         (\<forall>r \<in> set live. object_keys (row_object r) = column_names)"
proof -
  from run_follows_lifecycle [OF assms(1), of tr] assms(2)
  have "consistent (database s)" and rows: "ach_data (database s) = live"
    by simp_all
  then have "distinct (map row_id live)"
    by (simp add: consistent_def)
  moreover have "object_keys (row_object r) = column_names" for r
    by (simp add: row_object_def column_names_def)
  ultimately show ?thesis
    by (simp add: get_root_ok json_rows rows)
qed

theorem list_returns_live_records_once_witness:
  "consistent (database empty_server) \<and>
   snd (run empty_server (ach_data (database empty_server)) session) =
     [\<lparr>row_id = 2, room_name = ''Lab B'', room_volume = 150,
       airflow_rate = 3000, ach = 20\<rparr>] \<and>
   fst (router_get_root None (fst (run empty_server (ach_data (database empty_server)) session))) =
     \<lparr>status = 200,
      payload = Some (JArr [JObj [(''id'', JNum (Val 2)), (''room_name'', JStr ''Lab B''),
                                  (''room_volume'', JNum (Val 150)),
                                  (''airflow_rate'', JNum (Val 3000)),
                                  (''ach'', JNum (Val 20))]])\<rparr>"
proof -
  have c: "consistent (database empty_server)"
    by (simp add: empty_server_def consistent_def)
  have e: "ach_data (database empty_server) = []"
    by (simp add: empty_server_def)
  have p: "run empty_server (ach_data (database empty_server)) session =
      (fst (run empty_server (ach_data (database empty_server)) session),
       snd (run empty_server (ach_data (database empty_server)) session))"
    by simp
  show ?thesis
    using list_returns_live_records_once [OF c p]
    by (simp add: c e session_live row_object_def)
qed

text \<open>
  Claim C8. When an Update is answered with 200, the four request values are a string and
  three numbers, a row with the identifier was stored, and in the table after the update
  every row with that identifier has the four request values in its business columns and
  still has its identifier, every other row is as it was, and no row was added or
  removed. The response carries the updated row.
\<close>
theorem update_overwrites_only_target:
  assumes "status (fst (router_put_id fault s i b)) = 200"
  shows "\<exists>name volume rate changes.
           property b ''roomName'' = JStr name \<and>
           property b ''roomVolume'' = JNum (Val volume) \<and>
           property b ''airflowRate'' = JNum (Val rate) \<and>
           property b ''ach'' = JNum (Val changes) \<and>
           ach_data (database (snd (router_put_id fault s i b))) =
             map (\<lambda>r. if row_id r = i
                       then \<lparr>row_id = i, room_name = name, room_volume = volume,
                             airflow_rate = rate, ach = changes\<rparr>
                       else r) (ach_data (database s)) \<and>
           id_seq (database (snd (router_put_id fault s i b))) = id_seq (database s) \<and>
           (\<exists>r \<in> set (ach_data (database s)). row_id r = i) \<and>
           payload (fst (router_put_id fault s i b)) =
             Some (row_object \<lparr>row_id = i, room_name = name, room_volume = volume,
                                airflow_rate = rate, ach = changes\<rparr>)"
proof -
  from put_success [OF assms] obtain name volume rate changes r
    where valid: "\<not> missing_field b" and nofault: "fault = None"
      and cv: "column_values (property b ''roomName'') (property b ''roomVolume'')
                 (property b ''airflowRate'') (property b ''ach'') =
               Some (name, volume, rate, changes)"
      and one: "filter (\<lambda>r. row_id r = i) (ach_data (database s)) = [r]"
    by blast
  from one have "r \<in> set (filter (\<lambda>r. row_id r = i) (ach_data (database s)))"
    by simp
  then have "r \<in> set (ach_data (database s))" "row_id r = i"
    by simp_all
  then have hit: "\<exists>r \<in> set (ach_data (database s)). row_id r = i"
    by blast
  have "property b ''roomName'' = JStr name \<and>
        property b ''roomVolume'' = JNum (Val volume) \<and>
        property b ''airflowRate'' = JNum (Val rate) \<and>
        property b ''ach'' = JNum (Val changes)"
    using cv by (rule column_values_Some)
  moreover have "ach_data (database (snd (router_put_id fault s i b))) =
      map (\<lambda>r. if row_id r = i
                then \<lparr>row_id = i, room_name = name, room_volume = volume,
                      airflow_rate = rate, ach = changes\<rparr>
                else r) (ach_data (database s))"
    and "id_seq (database (snd (router_put_id fault s i b))) = id_seq (database s)"
    and "payload (fst (router_put_id fault s i b)) =
      Some (row_object \<lparr>row_id = i, room_name = name, room_volume = volume,
                         airflow_rate = rate, ach = changes\<rparr>)"
    by (simp_all add: nofault put_one [OF valid cv one] json_row)
  ultimately show ?thesis
    using hit by blast
qed

theorem update_overwrites_only_target_witness:
  "status (fst (router_put_id None two_rooms 2 lab_b)) = 200 \<and>
   ach_data (database (snd (router_put_id None two_rooms 2 lab_b))) =
     [\<lparr>row_id = 1, room_name = ''Lab A'', room_volume = 100,
       airflow_rate = 2000, ach = 20\<rparr>,
      \<lparr>row_id = 2, room_name = ''Lab B'', room_volume = 150,
       airflow_rate = 3000, ach = 20\<rparr>] \<and>
   id_seq (database (snd (router_put_id None two_rooms 2 lab_b))) = 3 \<and>
   payload (fst (router_put_id None two_rooms 2 lab_b)) =
     Some (JObj [(''id'', JNum (Val 2)), (''room_name'', JStr ''Lab B''),
                 (''room_volume'', JNum (Val 150)), (''airflow_rate'', JNum (Val 3000)),
                 (''ach'', JNum (Val 20))])"
proof -
  have "filter (\<lambda>r. row_id r = 2) (ach_data (database two_rooms)) =
      [\<lparr>row_id = 2, room_name = ''Hall'', room_volume = 900,
        airflow_rate = 4500, ach = 5\<rparr>]"
    by (simp add: two_rooms_def)
  then have ok: "status (fst (router_put_id None two_rooms 2 lab_b)) = 200"
    by (simp add: put_one [OF lab_b_valid lab_b_columns] status_json)
  from update_overwrites_only_target [OF ok] obtain name volume rate changes
    where "property lab_b ''roomName'' = JStr name"
      and "property lab_b ''roomVolume'' = JNum (Val volume)"
      and "property lab_b ''airflowRate'' = JNum (Val rate)"
      and "property lab_b ''ach'' = JNum (Val changes)"
      and "ach_data (database (snd (router_put_id None two_rooms 2 lab_b))) =
             map (\<lambda>r. if row_id r = 2
                       then \<lparr>row_id = 2, room_name = name, room_volume = volume,
                             airflow_rate = rate, ach = changes\<rparr>
                       else r) (ach_data (database two_rooms))"
      and "id_seq (database (snd (router_put_id None two_rooms 2 lab_b))) =
             id_seq (database two_rooms)"
      and "payload (fst (router_put_id None two_rooms 2 lab_b)) =
             Some (row_object \<lparr>row_id = 2, room_name = name, room_volume = volume,
                                airflow_rate = rate, ach = changes\<rparr>)"
    by blast
  then show ?thesis
    using ok by (simp add: lab_b_fields two_rooms_def row_object_def)
qed

text \<open>
  Claim C9. A Create or Update request that is answered with 400 has sent no statement to
  the persistence adapter and has left the table as it was: the presence check comes
  before the only adapter call of the handler.
\<close>
theorem rejected_request_sends_nothing:
  "(status (fst (router_post_root fault s b)) = 400 \<longrightarrow>
      queries (snd (router_post_root fault s b)) = queries s \<and>
      database (snd (router_post_root fault s b)) = database s) \<and>
   (status (fst (router_put_id fault s i b)) = 400 \<longrightarrow>
      queries (snd (router_put_id fault s i b)) = queries s \<and>
      database (snd (router_put_id fault s i b)) = database s)"
proof -
  have post: "status (fst (router_post_root fault s b)) = 400 \<Longrightarrow> missing_field b"
    using post_not_400 [of b fault s] by blast
  have put: "status (fst (router_put_id fault s i b)) = 400 \<Longrightarrow> missing_field b"
    using put_not_400 [of b fault s i] by blast
  show ?thesis
  proof (intro conjI impI)
    assume "status (fst (router_post_root fault s b)) = 400"
    then have m: "missing_field b" by (rule post)
    show "queries (snd (router_post_root fault s b)) = queries s"
      by (simp add: post_missing [OF m])
    show "database (snd (router_post_root fault s b)) = database s"
      by (simp add: post_missing [OF m])
  next
    assume "status (fst (router_put_id fault s i b)) = 400"
    then have m: "missing_field b" by (rule put)
    show "queries (snd (router_put_id fault s i b)) = queries s"
      by (simp add: put_missing [OF m])
    show "database (snd (router_put_id fault s i b)) = database s"
      by (simp add: put_missing [OF m])
  qed
qed

theorem rejected_request_sends_nothing_witness:
  "status (fst (router_post_root None two_rooms zero_ach)) = 400 \<and>
   queries (snd (router_post_root None two_rooms zero_ach)) = [] \<and>
   database (snd (router_post_root None two_rooms zero_ach)) = database two_rooms \<and>
   status (fst (router_put_id None two_rooms 1 zero_ach)) = 400 \<and>
   queries (snd (router_put_id None two_rooms 1 zero_ach)) = [] \<and>
   database (snd (router_put_id None two_rooms 1 zero_ach)) = database two_rooms"
proof -
  have "missing_field zero_ach"
    by (simp add: missing_field_def zero_ach_def property_def)
  then have "status (fst (router_post_root None two_rooms zero_ach)) = 400"
    and "status (fst (router_put_id None two_rooms 1 zero_ach)) = 400"
    by (simp_all add: post_missing put_missing status_json)
  then show ?thesis
    using rejected_request_sends_nothing [of None two_rooms zero_ach 1]
    by (simp add: two_rooms_def)
qed

text \<open>
  Claim C10. Every record in a successful response of List, Get-by-id, Create or Update
  is an object whose keys are the column names \<^verbatim>\<open>id\<close>, \<^verbatim>\<open>room_name\<close>,
  \<^verbatim>\<open>room_volume\<close>, \<^verbatim>\<open>airflow_rate\<close>, \<^verbatim>\<open>ach\<close>: the handlers pass the rows of
  \<^verbatim>\<open>SELECT *\<close> and \<^verbatim>\<open>RETURNING *\<close> to \<^verbatim>\<open>res.json\<close> as they are. The request's
  names \<^verbatim>\<open>roomName\<close>, \<^verbatim>\<open>roomVolume\<close>, \<^verbatim>\<open>airflowRate\<close> are not among the keys.
\<close>
theorem returned_records_use_column_names:
  "(status (fst (router_get_root fault s)) = 200 \<longrightarrow>
      (\<exists>records. payload (fst (router_get_root fault s)) = Some (JArr records) \<and>
         (\<forall>v \<in> set records. object_keys v = column_names))) \<and>
   (status (fst (router_get_id fault s i)) = 200 \<longrightarrow>
      (\<exists>v. payload (fst (router_get_id fault s i)) = Some v \<and> object_keys v = column_names)) \<and>
   (status (fst (router_post_root fault s b)) = 201 \<longrightarrow>
      (\<exists>v. payload (fst (router_post_root fault s b)) = Some v \<and>
         object_keys v = column_names)) \<and>
   (status (fst (router_put_id fault s i b)) = 200 \<longrightarrow>
      (\<exists>v. payload (fst (router_put_id fault s i b)) = Some v \<and>
         object_keys v = column_names)) \<and>
   column_names = [''id'', ''room_name'', ''room_volume'', ''airflow_rate'', ''ach''] \<and>
   ''roomName'' \<notin> set column_names \<and> ''roomVolume'' \<notin> set column_names \<and>
   ''airflowRate'' \<notin> set column_names"
proof -
  have keys: "object_keys (row_object r) = column_names" for r
    by (simp add: row_object_def column_names_def)
  have root: "status (fst (router_get_root fault s)) = 200 \<longrightarrow>
      (\<exists>records. payload (fst (router_get_root fault s)) = Some (JArr records) \<and>
         (\<forall>v \<in> set records. object_keys v = column_names))"
    by (cases fault) (auto simp: get_root_fault get_root_ok json_rows json_message keys)
  have get: "status (fst (router_get_id fault s i)) = 200 \<longrightarrow>
      (\<exists>v. payload (fst (router_get_id fault s i)) = Some v \<and> object_keys v = column_names)"
  proof (cases fault)
    case (Some e)
    then show ?thesis by (simp add: get_id_fault json_message)
  next
    case None
    then show ?thesis
      by (simp add: router_get_id_def db_oneOrNone_def db_query_def json_row json_message
          keys console_error_def Let_def split: list.splits)
  qed
  have post: "status (fst (router_post_root fault s b)) = 201 \<longrightarrow>
      (\<exists>v. payload (fst (router_post_root fault s b)) = Some v \<and>
         object_keys v = column_names)"
  proof
    assume ok: "status (fst (router_post_root fault s b)) = 201"
    from post_created [OF ok] obtain name volume rate changes
      where valid: "\<not> missing_field b" and "fault = None"
        and cv: "column_values (property b ''roomName'') (property b ''roomVolume'')
                   (property b ''airflowRate'') (property b ''ach'') =
                 Some (name, volume, rate, changes)"
      by blast
    then show "\<exists>v. payload (fst (router_post_root fault s b)) = Some v \<and>
         object_keys v = column_names"
      by (simp add: post_ok [OF valid cv] json_row keys)
  qed
  have put: "status (fst (router_put_id fault s i b)) = 200 \<longrightarrow>
      (\<exists>v. payload (fst (router_put_id fault s i b)) = Some v \<and>
         object_keys v = column_names)"
  proof
    assume ok: "status (fst (router_put_id fault s i b)) = 200"
    from put_success [OF ok] obtain name volume rate changes r
      where valid: "\<not> missing_field b" and "fault = None"
        and cv: "column_values (property b ''roomName'') (property b ''roomVolume'')
                   (property b ''airflowRate'') (property b ''ach'') =
                 Some (name, volume, rate, changes)"
        and one: "filter (\<lambda>r. row_id r = i) (ach_data (database s)) = [r]"
      by blast
    then show "\<exists>v. payload (fst (router_put_id fault s i b)) = Some v \<and>
         object_keys v = column_names"
      by (simp add: put_one [OF valid cv one] json_row keys)
  qed
  show ?thesis
    using root get post put by (simp add: column_names_def)
qed

theorem returned_records_use_column_names_witness:
  "status (fst (router_post_root None empty_server lab_a)) = 201 \<and>
   payload (fst (router_post_root None empty_server lab_a)) =
     Some (JObj [(''id'', JNum (Val 1)), (''room_name'', JStr ''Lab A''),
                 (''room_volume'', JNum (Val 100)), (''airflow_rate'', JNum (Val 2000)),
                 (''ach'', JNum (Val 20))]) \<and>
   (\<exists>v. payload (fst (router_post_root None empty_server lab_a)) = Some v \<and>
      object_keys v = [''id'', ''room_name'', ''room_volume'', ''airflow_rate'', ''ach''])"
proof -
  have ok: "status (fst (router_post_root None empty_server lab_a)) = 201"
    by (simp add: post_ok [OF lab_a_valid lab_a_columns] status_json)
  have "payload (fst (router_post_root None empty_server lab_a)) =
     Some (JObj [(''id'', JNum (Val 1)), (''room_name'', JStr ''Lab A''),
                 (''room_volume'', JNum (Val 100)), (''airflow_rate'', JNum (Val 2000)),
                 (''ach'', JNum (Val 20))])"
    by (simp add: post_ok [OF lab_a_valid lab_a_columns] json_row)
       (simp add: row_object_def empty_server_def)
  then show ?thesis
    using returned_records_use_column_names [of None empty_server 1 lab_a] ok
    by (simp add: column_names_def)
qed

end
